theory Spec2Isabelle
  imports Complex_Main
begin

section \<open>The DICOM hierarchy of \<^verbatim>\<open>pumpia/file_handling/dicom_structures.py\<close>\<close>

subsection \<open>Python values, exceptions and arrays\<close>

text \<open>
  The exceptions the module raises or lets through. \<open>RecursionError\<close> is what the
  interpreter raises when the method calls between a Series and its Instances nest
  beyond the recursion limit.
\<close>

datatype pyerr =
    KeyError | IndexError | TypeError | ValueError | FileNotFoundError
  | InvalidDicomError | NotImplementedError | RecursionError

text \<open>The values a tag lookup hands back: \<open>None\<close>, a number, a string or a sequence.\<close>

datatype pyval = VNone | VNum real | VStr string | VSeq "pyval list"

text \<open>
  A numpy array is a nest of lists of samples; a sample carries its dtype kind, so that
  widening to float (\<open>np.astype(a, float)\<close>) is visible.
\<close>

datatype sample = IntS int | FloatS real

datatype 'a nd = Sc 'a | Arr "'a nd list"

type_synonym ndarray = "sample nd"

fun to_float :: "sample \<Rightarrow> real" where
  "to_float (IntS i) = of_int i"
| "to_float (FloatS x) = x"

definition astype_float :: "ndarray \<Rightarrow> ndarray" where
  "astype_float a = map_nd (\<lambda>x. FloatS (to_float x)) a"

text \<open>\<open>raw_array * slope + intercept\<close> on a float array and two numbers.\<close>

definition rescale :: "real \<Rightarrow> real \<Rightarrow> ndarray \<Rightarrow> ndarray" where
  "rescale m c a = map_nd (\<lambda>x. FloatS (to_float x * m + c)) a"

text \<open>
  The same expression on whatever the two lookups returned: numpy multiplies by a
  number; \<open>None\<close> and strings are a \<open>TypeError\<close> (the sequence case, which numpy
  would try to broadcast, is given the same error and no theorem relies on it).
\<close>

fun rescale_by :: "ndarray \<Rightarrow> pyval \<Rightarrow> pyval \<Rightarrow> pyerr + ndarray" where
  "rescale_by a (VNum m) (VNum c) = Inr (rescale m c a)"
| "rescale_by a _ _ = Inl TypeError"

text \<open>\<^verbatim>\<open>xs[i]\<close> on a list; a negative \<open>i\<close> is a position from the end.\<close>

definition py_index :: "'a list \<Rightarrow> int \<Rightarrow> pyerr + 'a" where
  "py_index xs i =
     (if 0 \<le> i \<and> i < int (length xs) then Inr (xs ! nat i)
      else if i < 0 \<and> - int (length xs) \<le> i then Inr (xs ! nat (int (length xs) + i))
      else Inl IndexError)"

text \<open>\<open>a[k]\<close> on an array: its k-th item along the first axis.\<close>

fun nd_index :: "'a nd \<Rightarrow> int \<Rightarrow> pyerr + 'a nd" where
  "nd_index (Sc x) k = Inl IndexError"
| "nd_index (Arr xs) k = py_index xs k"

primrec nd_shape :: "'a nd \<Rightarrow> nat list" where
  "nd_shape (Sc x) = []"
| "nd_shape (Arr xs) = length xs # (case map nd_shape xs of [] \<Rightarrow> [] | s # ss \<Rightarrow> s)"

fun nd_items :: "'a nd \<Rightarrow> 'a nd list" where
  "nd_items (Sc x) = []"
| "nd_items (Arr xs) = xs"

fun is_scalar :: "'a nd \<Rightarrow> bool" where
  "is_scalar (Sc x) = True"
| "is_scalar (Arr xs) = False"

text \<open>
  \<open>np.concatenate\<close> along the first axis: it refuses an empty list of arrays, a
  zero-dimensional operand, and operands whose remaining dimensions differ.
\<close>

definition np_concatenate :: "'a nd list \<Rightarrow> pyerr + 'a nd" where
  "np_concatenate arrs =
     (if arrs = [] then Inl ValueError
      else if list_ex is_scalar arrs then Inl ValueError
      else if list_ex (\<lambda>a. tl (nd_shape a) \<noteq> tl (nd_shape (hd arrs))) arrs then Inl ValueError
      else Inr (Arr (concat (map nd_items arrs))))"

text \<open>\<open>np.zeros((1, 1, 1))\<close>.\<close>

definition np_zeros_1_1_1 :: ndarray where
  "np_zeros_1_1_1 = Arr [Arr [Arr [Sc (FloatS 0)]]]"

subsection \<open>Tags and datasets\<close>

datatype tag =
    SamplesPerPixel | RescaleSlope | RescaleIntercept | PhotometricInterpretation
  | WindowWidth | WindowCenter | PixelSpacing | SliceThickness | OtherTag nat

text \<open>
  A decoded file: for every tag and optional frame number the value stored for it, if
  any, and the pixel data.
\<close>

record dataset =
  elems :: "tag \<Rightarrow> int option \<Rightarrow> pyval option"
  pixel_array :: ndarray

text \<open>
  Modelled from the spec: the tag resolver \<^verbatim>\<open>get_tag\<close> of
  \<^verbatim>\<open>pumpia.file_handling.dicom_tags\<close> is not among the sources. It returns the element of
  the tag (here directly its \<^verbatim>\<open>.value\<close>) for the dataset and optional frame, and fails
  if the tag is absent; the failure is the \<open>KeyError\<close> that every caller in the module
  catches around it.
\<close>

definition get_tag :: "dataset \<Rightarrow> tag \<Rightarrow> int option \<Rightarrow> pyerr + pyval" where
  "get_tag ds t fr = (case elems ds t fr of None \<Rightarrow> Inl KeyError | Some v \<Rightarrow> Inr v)"

subsection \<open>Patient and Study\<close>

record patient =
  patient_id :: string
  name :: string

record study =
  patient :: patient
  study_id :: string
  study_date :: "nat \<times> nat \<times> nat"
  study_description :: string

text \<open>The objects \<^verbatim>\<open>__eq__\<close> can be handed.\<close>

datatype pyobj =
  PatientObj patient | StudyObj study | StrObj string | IntObj int | OtherObj

definition Patient_id_string :: "patient \<Rightarrow> string" where
  "Patient_id_string p = ''DICOM : '' @ patient_id p"

text \<open>\<^verbatim>\<open>hash\<close> on strings is Python's own; it is a parameter \<open>h\<close> of the model.\<close>

definition Patient_hash :: "(string \<Rightarrow> int) \<Rightarrow> patient \<Rightarrow> int" where
  "Patient_hash h p = h (Patient_id_string p)"

fun Patient_eq :: "(string \<Rightarrow> int) \<Rightarrow> patient \<Rightarrow> pyobj \<Rightarrow> bool" where
  "Patient_eq h p (PatientObj q) = (patient_id p = patient_id q)"
| "Patient_eq h p (StrObj s) = (Patient_id_string p = s)"
| "Patient_eq h p (IntObj n) = (Patient_hash h p = n)"
| "Patient_eq h p _ = False"

definition Study_id_string :: "study \<Rightarrow> string" where
  "Study_id_string s = Patient_id_string (patient s) @ '' : '' @ study_id s"

definition Study_hash :: "(string \<Rightarrow> int) \<Rightarrow> study \<Rightarrow> int" where
  "Study_hash h s = h (Study_id_string s)"

fun Study_eq :: "(string \<Rightarrow> int) \<Rightarrow> study \<Rightarrow> pyobj \<Rightarrow> bool" where
  "Study_eq h s (StudyObj t) = (study_id s = study_id t)"
| "Study_eq h s (StrObj x) = (Study_id_string s = x)"
| "Study_eq h s (IntObj n) = (Study_hash h s = n)"
| "Study_eq h s _ = False"

subsection \<open>Series, Instances and the store\<close>

type_synonym addr = nat
type_synonym path = string

text \<open>
  The attributes an Instance keeps for life. \<open>i_filepath\<close>, \<open>i_shape\<close>,
  \<open>i_is_multisample\<close> and \<open>i_is_rgb\<close> are the attributes the base class
  \<^verbatim>\<open>FileImageSet\<close> stores from the constructor's arguments.
\<close>

record dcm_instance =
  instance_number :: int
  is_frame :: bool
  frame_number :: "int option"
  i_filepath :: path
  i_shape :: "nat \<times> nat \<times> nat"
  i_is_multisample :: bool
  i_is_rgb :: bool

text \<open>
  A Series: \<open>s_filepath\<close>, \<open>s_dicom\<close> and \<open>image_set\<close> are \<^verbatim>\<open>_filepath\<close>,
  \<^verbatim>\<open>_dicom\<close> and \<^verbatim>\<open>_image_set\<close>; the members of the set are references (addresses)
  to Instance objects, kept in the order they were added. \<open>shape\<close>,
  \<open>is_multisample\<close>, \<open>is_rgb\<close> and \<open>current_slice\<close> are the attributes of the base
  class \<^verbatim>\<open>ImageCollection\<close>.
\<close>

record series =
  is_stack :: bool
  s_filepath :: "path option"
  s_loaded :: bool
  s_dicom :: "dataset option"
  shape :: "nat \<times> nat \<times> nat"
  is_multisample :: bool
  is_rgb :: bool
  image_set :: "addr list"
  current_slice :: int

text \<open>
  The store: one Series, the Instance objects whose \<^verbatim>\<open>series\<close> attribute refers to
  it (by address), their mutable attributes \<^verbatim>\<open>loaded\<close> and \<^verbatim>\<open>_dicom\<close> (one map per
  attribute), and the two outside collaborators the methods call: \<^verbatim>\<open>dcmread\<close> (the
  files on disk) and \<^verbatim>\<open>convert_color_space\<close>.
\<close>

record world =
  ser :: series
  inst :: "addr \<Rightarrow> dcm_instance"
  i_loaded :: "addr \<Rightarrow> bool"
  i_dicom :: "addr \<Rightarrow> dataset option"
  dcmread :: "path \<Rightarrow> pyerr + dataset"
  convert_color_space :: "ndarray \<Rightarrow> string \<Rightarrow> pyerr + ndarray"

definition dim0 :: "nat \<times> nat \<times> nat \<Rightarrow> nat" where
  "dim0 sh = fst sh"



text \<open>
  Modelled from the spec: \<^verbatim>\<open>num_slices\<close> is a property of the base class
  \<^verbatim>\<open>ImageCollection\<close>, which is not among the sources; by the spec the shape is
  (slice count, height, width), so the slice count is the first component.
\<close>

definition num_slices :: "series \<Rightarrow> nat" where
  "num_slices s = dim0 (shape s)"

definition sort_value :: "dcm_instance \<Rightarrow> int" where
  "sort_value i =
     (if is_frame i \<and> frame_number i \<noteq> None then the (frame_number i)
      else instance_number i)"

text \<open>
  \<^verbatim>\<open>sorted(self._image_set, key=lambda x: x.sort_value)\<close>: a stable sort; Instances
  with equal sort values stay in the order of the set, here the order of insertion.
\<close>

definition instances :: "world \<Rightarrow> addr list" where
  "instances w = sort_key (\<lambda>a. sort_value (inst w a)) (image_set (ser w))"



subsection \<open>Methods as state transformers that may raise\<close>

text \<open>
  A method call takes the store and gives back the store it leaves behind together with
  either the exception it raised or its result.
\<close>

type_synonym 'a run = "world \<Rightarrow> (pyerr + 'a) \<times> world"

definition ret :: "'a \<Rightarrow> 'a run" where
  "ret x = (\<lambda>w. (Inr x, w))"

definition raise :: "pyerr \<Rightarrow> 'a run" where
  "raise e = (\<lambda>w. (Inl e, w))"

definition lift :: "pyerr + 'a \<Rightarrow> 'a run" where
  "lift r = (\<lambda>w. (r, w))"

definition bnd :: "'a run \<Rightarrow> ('a \<Rightarrow> 'b run) \<Rightarrow> 'b run" where
  "bnd m f = (\<lambda>w. case m w of (Inl e, w') \<Rightarrow> (Inl e, w') | (Inr x, w') \<Rightarrow> f x w')"

text \<open>\<^verbatim>\<open>try: m except (es): h\<close>.\<close>

definition except :: "'a run \<Rightarrow> pyerr list \<Rightarrow> 'a run \<Rightarrow> 'a run" where
  "except m es h =
     (\<lambda>w. case m w of
        (Inl e, w') \<Rightarrow> if e \<in> set es then h w' else (Inl e, w')
      | (Inr x, w') \<Rightarrow> (Inr x, w'))"

text \<open>A \<^verbatim>\<open>for\<close> loop (or list comprehension) whose body may raise.\<close>

fun for_each :: "'a list \<Rightarrow> ('a \<Rightarrow> 'b run) \<Rightarrow> 'b list run" where
  "for_each [] f = ret []"
| "for_each (x # xs) f = bnd (f x) (\<lambda>y. bnd (for_each xs f) (\<lambda>ys. ret (y # ys)))"


text \<open>\<^verbatim>\<open>Series.current_image\<close> and \<^verbatim>\<open>Series.filepath\<close>.\<close>

definition Series_current_image :: "addr run" where
  "Series_current_image = (\<lambda>w. lift (py_index (instances w) (current_slice (ser w))) w)"

definition Series_filepath :: "path run" where
  "Series_filepath = (\<lambda>w.
     case s_filepath (ser w) of
       None \<Rightarrow> bnd Series_current_image (\<lambda>a w'. ret (i_filepath (inst w' a)) w') w
     | Some p \<Rightarrow> ret p w)"

text \<open>The loop \<^verbatim>\<open>for instance in self.instances: instance.loaded = b\<close>.\<close>

definition mark_instances :: "bool \<Rightarrow> unit run" where
  "mark_instances b = (\<lambda>w.
     ret () (w\<lparr>i_loaded := fold (\<lambda>a f. f(a := b)) (instances w) (i_loaded w)\<rparr>))"

text \<open>
  \<^verbatim>\<open>Series.load\<close> and \<^verbatim>\<open>Instance.load\<close> call each other (a non-stack Series loads its
  Instances, a frame Instance loads its Series). The first argument is the number of
  nested calls the interpreter still allows; at zero the call raises \<open>RecursionError\<close>.
\<close>

fun Series_load :: "nat \<Rightarrow> unit run"
  and Instance_load :: "nat \<Rightarrow> addr \<Rightarrow> unit run" where
  "Series_load 0 = raise RecursionError"
| "Series_load (Suc d) = (\<lambda>w.
     if \<not> s_loaded (ser w) then
       bnd (if is_stack (ser w) then
              bnd Series_filepath (\<lambda>p.
              bnd (\<lambda>w1. lift (dcmread w1 p) w1) (\<lambda>ds.
              bnd (\<lambda>w1. ret () (w1\<lparr>ser := (ser w1)\<lparr>s_dicom := Some ds\<rparr>\<rparr>)) (\<lambda>_.
              mark_instances True)))
            else
              bnd (for_each (instances w) (\<lambda>a. Instance_load d a)) (\<lambda>_. ret ()))
           (\<lambda>_ w1. ret () (w1\<lparr>ser := (ser w1)\<lparr>s_loaded := True\<rparr>\<rparr>)) w
     else ret () w)"
| "Instance_load 0 a = raise RecursionError"
| "Instance_load (Suc d) a = (\<lambda>w.
     if \<not> i_loaded w a then
       bnd (if is_frame (inst w a) then Series_load d
            else
              bnd (\<lambda>w1. lift (dcmread w1 (i_filepath (inst w1 a))) w1) (\<lambda>ds w1.
              ret () (w1\<lparr>i_dicom := (i_dicom w1)(a := Some ds)\<rparr>)))
           (\<lambda>_ w1. ret () (w1\<lparr>i_loaded := (i_loaded w1)(a := True)\<rparr>)) w
     else ret () w)"

fun Series_unload :: "nat \<Rightarrow> unit run"
  and Instance_unload :: "nat \<Rightarrow> addr \<Rightarrow> unit run" where
  "Series_unload 0 = raise RecursionError"
| "Series_unload (Suc d) = (\<lambda>w.
     if s_loaded (ser w) then
       bnd (if is_stack (ser w) then
              bnd (\<lambda>w1. ret () (w1\<lparr>ser := (ser w1)\<lparr>s_dicom := None\<rparr>\<rparr>)) (\<lambda>_.
              mark_instances False)
            else
              bnd (for_each (instances w) (\<lambda>a. Instance_unload d a)) (\<lambda>_. ret ()))
           (\<lambda>_ w1. ret () (w1\<lparr>ser := (ser w1)\<lparr>s_loaded := False\<rparr>\<rparr>)) w
     else ret () w)"
| "Instance_unload 0 a = raise RecursionError"
| "Instance_unload (Suc d) a = (\<lambda>w.
     if i_loaded w a then
       bnd (if is_frame (inst w a) then Series_unload d
            else (\<lambda>w1. ret () (w1\<lparr>i_dicom := (i_dicom w1)(a := None)\<rparr>)))
           (\<lambda>_ w1. ret () (w1\<lparr>i_loaded := (i_loaded w1)(a := False)\<rparr>)) w
     else ret () w)"

text \<open>
  \<^verbatim>\<open>dicom_dataset\<close> of a Series and of an Instance: load if needed, read, and unload
  again if the node was not loaded before.
\<close>

fun Series_dicom_dataset :: "nat \<Rightarrow> dataset option run"
  and Instance_dicom_dataset :: "nat \<Rightarrow> addr \<Rightarrow> dataset option run" where
  "Series_dicom_dataset 0 = raise RecursionError"
| "Series_dicom_dataset (Suc d) = (\<lambda>w.
     let load_stat = s_loaded (ser w) in
     bnd (if \<not> load_stat then Series_load d else ret ()) (\<lambda>_.
     bnd (\<lambda>w1. if is_stack (ser w1) then ret (s_dicom (ser w1)) w1
                else bnd Series_current_image (\<lambda>a. Instance_dicom_dataset d a) w1) (\<lambda>dcm.
     bnd (if \<not> load_stat then Series_unload d else ret ()) (\<lambda>_.
     ret dcm))) w)"
| "Instance_dicom_dataset 0 a = raise RecursionError"
| "Instance_dicom_dataset (Suc d) a = (\<lambda>w.
     let load_stat = i_loaded w a in
     bnd (if \<not> load_stat then Instance_load d a else ret ()) (\<lambda>_.
     bnd (\<lambda>w1. if is_frame (inst w1 a) then Series_dicom_dataset d w1
                else ret (i_dicom w1 a) w1) (\<lambda>dcm.
     bnd (if \<not> load_stat then Instance_unload d a else ret ()) (\<lambda>_.
     ret dcm))) w)"

text \<open>
  \<^verbatim>\<open>Instance.get_tag\<close>, \<^verbatim>\<open>Series.get_tags\<close> and \<^verbatim>\<open>Series.get_tag\<close> do not call
  themselves; they pass the call budget on to the methods above.
\<close>

definition Instance_get_tag :: "nat \<Rightarrow> tag \<Rightarrow> addr \<Rightarrow> pyval run" where
  "Instance_get_tag d t a = (\<lambda>w.
     let load_stat = i_loaded w a in
     bnd (if \<not> load_stat then Instance_load d a else ret ()) (\<lambda>_.
     bnd (\<lambda>w1.
            if is_frame (inst w1 a) \<and> frame_number (inst w1 a) \<noteq> None then
              bnd (Series_dicom_dataset d) (\<lambda>dataset.
                case dataset of
                  Some ds \<Rightarrow> lift (get_tag ds t (frame_number (inst w1 a)))
                | None \<Rightarrow> ret VNone) w1
            else
              bnd (Instance_dicom_dataset d a) (\<lambda>dataset.
                case dataset of
                  Some ds \<Rightarrow> lift (get_tag ds t None)
                | None \<Rightarrow> ret VNone) w1) (\<lambda>v.
     bnd (if \<not> load_stat then Instance_unload d a else ret ()) (\<lambda>_.
     ret v))) w)"

definition Series_get_tags :: "nat \<Rightarrow> tag \<Rightarrow> pyval list run" where
  "Series_get_tags d t = (\<lambda>w.
     let load_stat = s_loaded (ser w) in
     bnd (if \<not> load_stat then Series_load d else ret ()) (\<lambda>_.
     bnd (\<lambda>w1. for_each (instances w1) (\<lambda>a. Instance_get_tag d t a) w1) (\<lambda>vs.
     bnd (if \<not> load_stat then Series_unload d else ret ()) (\<lambda>_.
     ret vs))) w)"

definition Series_get_tag :: "nat \<Rightarrow> tag \<Rightarrow> int \<Rightarrow> pyval run" where
  "Series_get_tag d t n = (\<lambda>w.
     if n < int (num_slices (ser w)) then
       bnd (lift (py_index (instances w) n)) (\<lambda>a. Instance_get_tag d t a) w
     else raise IndexError w)"

text \<open>\<^verbatim>\<open>raw_array\<close> of a Series and of an Instance.\<close>

fun Series_raw_array :: "nat \<Rightarrow> ndarray run"
  and Instance_raw_array :: "nat \<Rightarrow> addr \<Rightarrow> ndarray run" where
  "Series_raw_array 0 = raise RecursionError"
| "Series_raw_array (Suc d) = (\<lambda>w.
     bnd (if \<not> s_loaded (ser w) then Series_load d else ret ()) (\<lambda>_ w1.
       if is_stack (ser w1) \<and> s_dicom (ser w1) \<noteq> None then
         ret (pixel_array (the (s_dicom (ser w1)))) w1
       else
         bnd (for_each (instances w1) (\<lambda>a. Instance_raw_array d a)) (\<lambda>arrs.
         lift (np_concatenate arrs)) w1) w)"
| "Instance_raw_array 0 a = raise RecursionError"
| "Instance_raw_array (Suc d) a = (\<lambda>w.
     bnd (if \<not> i_loaded w a then Instance_load d a else ret ()) (\<lambda>_ w1.
       if is_frame (inst w1 a) \<and> frame_number (inst w1 a) \<noteq> None then
         bnd (Series_raw_array d) (\<lambda>arr.
         bnd (lift (nd_index arr (the (frame_number (inst w1 a)) - 1))) (\<lambda>fr.
         ret (Arr [fr]))) w1
       else if i_dicom w1 a \<noteq> None then
         ret (Arr [pixel_array (the (i_dicom w1 a))]) w1
       else ret np_zeros_1_1_1 w1) w)"

text \<open>
  The correction both \<^verbatim>\<open>array\<close> accessors apply to a float-widened array once the
  samples-per-pixel value \<open>spp\<close> is known; \<open>look t\<close> is the node's own tag lookup and
  \<open>raw\<close> its \<^verbatim>\<open>raw_array\<close> accessor (read again for the colour conversion).
\<close>

definition corrected :: "(tag \<Rightarrow> pyval run) \<Rightarrow> ndarray run \<Rightarrow> ndarray \<Rightarrow> pyval \<Rightarrow> ndarray run" where
  "corrected look raw raw_array spp =
     (if spp = VNum 1 then
        except
          (bnd (look RescaleSlope) (\<lambda>slope.
           bnd (look RescaleIntercept) (\<lambda>intercept.
           lift (rescale_by raw_array slope intercept))))
          [KeyError] (ret raw_array)
      else
        except
          (bnd (look PhotometricInterpretation) (\<lambda>photo_interp.
             case photo_interp of
               VStr cs \<Rightarrow>
                 bnd raw (\<lambda>r.
                 bnd (\<lambda>w. lift (convert_color_space w r cs) w) (\<lambda>rgb.
                 ret (astype_float rgb)))
             | _ \<Rightarrow> ret raw_array))
          [KeyError, NotImplementedError] (ret raw_array))"

fun Series_array :: "nat \<Rightarrow> ndarray run"
  and Instance_array :: "nat \<Rightarrow> addr \<Rightarrow> ndarray run" where
  "Series_array 0 = raise RecursionError"
| "Series_array (Suc d) = (\<lambda>w.
     bnd (if \<not> s_loaded (ser w) then Series_load d else ret ()) (\<lambda>_ w1.
       if is_stack (ser w1) then
         bnd (Series_raw_array d) (\<lambda>r.
         bnd (Series_get_tag d SamplesPerPixel 0) (\<lambda>spp.
         corrected (\<lambda>t. Series_get_tag d t 0) (Series_raw_array d) (astype_float r) spp)) w1
       else
         bnd (for_each (instances w1) (\<lambda>a. Instance_array d a)) (\<lambda>arrs.
         lift (np_concatenate arrs)) w1) w)"
| "Instance_array 0 a = raise RecursionError"
| "Instance_array (Suc d) a = (\<lambda>w.
     bnd (if \<not> i_loaded w a then Instance_load d a else ret ()) (\<lambda>_ w1.
       if is_frame (inst w1 a) \<and> frame_number (inst w1 a) \<noteq> None then
         bnd (Series_array d) (\<lambda>arr.
         bnd (lift (nd_index arr (the (frame_number (inst w1 a)) - 1))) (\<lambda>fr.
         ret (Arr [fr]))) w1
       else
         bnd (Instance_raw_array d a) (\<lambda>r.
         bnd (Instance_get_tag d SamplesPerPixel a) (\<lambda>spp.
         corrected (\<lambda>t. Instance_get_tag d t a) (Instance_raw_array d a) (astype_float r) spp)) w1) w)"

subsection \<open>Display defaults\<close>

text \<open>Python's \<^verbatim>\<open>/ 2\<close>, \<^verbatim>\<open>+\<close> and \<^verbatim>\<open>-\<close> on tag values: defined on numbers only.\<close>

fun py_half :: "pyval \<Rightarrow> pyerr + pyval" where
  "py_half (VNum x) = Inr (VNum (x / 2))"
| "py_half _ = Inl TypeError"

fun py_add :: "pyval \<Rightarrow> pyval \<Rightarrow> pyerr + pyval" where
  "py_add (VNum x) (VNum y) = Inr (VNum (x + y))"
| "py_add _ _ = Inl TypeError"

fun py_sub :: "pyval \<Rightarrow> pyval \<Rightarrow> pyerr + pyval" where
  "py_sub (VNum x) (VNum y) = Inr (VNum (x - y))"
| "py_sub _ _ = Inl TypeError"

text \<open>
  \<^verbatim>\<open>float(v)\<close>: a number stays, a string is parsed (the parser \<open>pf\<close> is Python's own
  and a parameter here) or is a \<open>ValueError\<close>, anything else is a \<open>TypeError\<close>.
\<close>

fun py_float :: "(string \<Rightarrow> real option) \<Rightarrow> pyval \<Rightarrow> pyerr + pyval" where
  "py_float pf (VNum x) = Inr (VNum x)"
| "py_float pf (VStr cs) = (case pf cs of None \<Rightarrow> Inl ValueError | Some x \<Rightarrow> Inr (VNum x))"
| "py_float pf _ = Inl TypeError"

text \<open>\<^verbatim>\<open>v[i]\<close> on a tag value.\<close>

fun py_getitem :: "pyval \<Rightarrow> int \<Rightarrow> pyerr + pyval" where
  "py_getitem (VSeq vs) i = py_index vs i"
| "py_getitem (VStr cs) i = (case py_index cs i of Inl e \<Rightarrow> Inl e | Inr c \<Rightarrow> Inr (VStr [c]))"
| "py_getitem _ i = Inl TypeError"

text \<open>
  The bodies of \<^verbatim>\<open>vmax\<close>, \<^verbatim>\<open>vmin\<close> and \<^verbatim>\<open>pixel_size\<close> are the same text in Series and
  in Instance but for the tag lookup: \<open>look\<close> is \<^verbatim>\<open>self.get_tag\<close> (for a Series at the
  current slice). \<open>base\<close> is the accessor of the same name of the base class
  (\<^verbatim>\<open>super().vmax\<close> and so on), which is not among the sources and is a parameter.
\<close>

definition vmax_body :: "(tag \<Rightarrow> pyval run) \<Rightarrow> pyval run \<Rightarrow> pyval run" where
  "vmax_body look base =
     except
       (bnd (look WindowWidth) (\<lambda>window_width.
        bnd (look WindowCenter) (\<lambda>window_center.
        if window_center \<noteq> VNone \<and> window_width \<noteq> VNone then
          bnd (lift (py_half window_width)) (\<lambda>half. lift (py_add window_center half))
        else raise TypeError)))
       [TypeError, KeyError] base"

definition vmin_body :: "(tag \<Rightarrow> pyval run) \<Rightarrow> pyval run \<Rightarrow> pyval run" where
  "vmin_body look base =
     except
       (bnd (look WindowWidth) (\<lambda>window_width.
        bnd (look WindowCenter) (\<lambda>window_center.
        if window_center \<noteq> VNone \<and> window_width \<noteq> VNone then
          bnd (lift (py_half window_width)) (\<lambda>half. lift (py_sub window_center half))
        else raise TypeError)))
       [TypeError, KeyError] base"

definition pixel_size_body :: "(tag \<Rightarrow> pyval run) \<Rightarrow> (pyval \<times> pyval \<times> pyval) run" where
  "pixel_size_body look =
     bnd (except (look PixelSpacing) [KeyError] (ret (VSeq [VNum 1, VNum 1]))) (\<lambda>ps.
     bnd (except (look SliceThickness) [KeyError] (ret (VNum 1))) (\<lambda>st.
     let pixel_spacing = (if ps = VNone then VSeq [VNum 1, VNum 1] else ps);
         slice_thickness = (if st = VNone then VNum 1 else st)
     in except
          (bnd (lift (py_getitem pixel_spacing 0)) (\<lambda>row_spacing.
           bnd (lift (py_getitem pixel_spacing 1)) (\<lambda>column_spacing.
           ret (slice_thickness, row_spacing, column_spacing))))
          [TypeError] (ret (slice_thickness, VNum 1, VNum 1))))"

text \<open>\<^verbatim>\<open>self.get_tag(tag, self.current_slice)\<close>.\<close>

definition Series_look :: "nat \<Rightarrow> tag \<Rightarrow> pyval run" where
  "Series_look d t = (\<lambda>w. Series_get_tag d t (current_slice (ser w)) w)"

definition Series_vmax :: "pyval run \<Rightarrow> nat \<Rightarrow> pyval run" where
  "Series_vmax base d = vmax_body (Series_look d) base"

definition Series_vmin :: "pyval run \<Rightarrow> nat \<Rightarrow> pyval run" where
  "Series_vmin base d = vmin_body (Series_look d) base"

definition Series_window :: "(string \<Rightarrow> real option) \<Rightarrow> pyval run \<Rightarrow> nat \<Rightarrow> pyval run" where
  "Series_window pf base d =
     except
       (bnd (Series_look d WindowWidth) (\<lambda>window.
        if window \<noteq> VNone then lift (py_float pf window) else base))
       [KeyError, IndexError, TypeError] base"

definition Series_level :: "(string \<Rightarrow> real option) \<Rightarrow> pyval run \<Rightarrow> nat \<Rightarrow> pyval run" where
  "Series_level pf base d =
     except
       (bnd (Series_look d WindowCenter) (\<lambda>level.
        if level \<noteq> VNone then lift (py_float pf level) else base))
       [KeyError, IndexError] base"

definition Series_pixel_size :: "nat \<Rightarrow> (pyval \<times> pyval \<times> pyval) run" where
  "Series_pixel_size d = pixel_size_body (Series_look d)"

definition Instance_vmax :: "pyval run \<Rightarrow> nat \<Rightarrow> addr \<Rightarrow> pyval run" where
  "Instance_vmax base d a = vmax_body (\<lambda>t. Instance_get_tag d t a) base"

definition Instance_vmin :: "pyval run \<Rightarrow> nat \<Rightarrow> addr \<Rightarrow> pyval run" where
  "Instance_vmin base d a = vmin_body (\<lambda>t. Instance_get_tag d t a) base"

definition Instance_window :: "pyval run \<Rightarrow> nat \<Rightarrow> addr \<Rightarrow> pyval run" where
  "Instance_window base d a =
     except (Instance_get_tag d WindowWidth a) [KeyError, IndexError] base"

definition Instance_level :: "pyval run \<Rightarrow> nat \<Rightarrow> addr \<Rightarrow> pyval run" where
  "Instance_level base d a =
     except (Instance_get_tag d WindowCenter a) [KeyError, IndexError] base"

definition Instance_pixel_size :: "nat \<Rightarrow> addr \<Rightarrow> (pyval \<times> pyval \<times> pyval) run" where
  "Instance_pixel_size d a = pixel_size_body (\<lambda>t. Instance_get_tag d t a)"

subsection \<open>Example files and stores\<close>

text \<open>
  A file with the rescale and window tags, and one with neither rescale tags nor a
  window centre.
\<close>

fun ct_elems :: "tag \<Rightarrow> int option \<Rightarrow> pyval option" where
  "ct_elems SamplesPerPixel fr = Some (VNum 1)"
| "ct_elems RescaleSlope fr = Some (VNum 2)"
| "ct_elems RescaleIntercept fr = Some (VNum (- 100))"
| "ct_elems WindowCenter fr = Some (VNum 40)"
| "ct_elems WindowWidth fr = Some (VNum 400)"
| "ct_elems t fr = None"

fun bare_elems :: "tag \<Rightarrow> int option \<Rightarrow> pyval option" where
  "bare_elems SamplesPerPixel fr = Some (VNum 1)"
| "bare_elems WindowWidth fr = Some (VNum 400)"
| "bare_elems t fr = None"

definition ct_file :: dataset where
  "ct_file = \<lparr>elems = ct_elems, pixel_array = Arr [Arr [Sc (IntS 150)]]\<rparr>"

definition bare_file :: dataset where
  "bare_file = \<lparr>elems = bare_elems, pixel_array = Arr [Arr [Sc (IntS 150)]]\<rparr>"

definition stack_file :: dataset where
  "stack_file = \<lparr>elems = ct_elems,
     pixel_array = Arr [Arr [Arr [Sc (IntS 10)]], Arr [Arr [Sc (IntS 20)]],
                        Arr [Arr [Sc (IntS 30)]], Arr [Arr [Sc (IntS 40)]],
                        Arr [Arr [Sc (IntS 50)]]]\<rparr>"

definition example_disk :: "path \<Rightarrow> pyerr + dataset" where
  "example_disk p =
     (if p = ''ct.dcm'' then Inr ct_file
      else if p = ''bare.dcm'' then Inr bare_file
      else if p = ''stack.dcm'' then Inr stack_file
      else Inl FileNotFoundError)"

definition no_conversion :: "ndarray \<Rightarrow> string \<Rightarrow> pyerr + ndarray" where
  "no_conversion a cs = Inl NotImplementedError"

definition file_instance :: "int \<Rightarrow> path \<Rightarrow> nat \<Rightarrow> dcm_instance" where
  "file_instance n p k =
     \<lparr>instance_number = n, is_frame = False, frame_number = None, i_filepath = p,
      i_shape = (1, k, k), i_is_multisample = False, i_is_rgb = False\<rparr>"

definition frame_instance :: "int \<Rightarrow> dcm_instance" where
  "frame_instance n =
     \<lparr>instance_number = n, is_frame = True, frame_number = Some n,
      i_filepath = ''stack.dcm'', i_shape = (1, 1, 1), i_is_multisample = False,
      i_is_rgb = False\<rparr>"

text \<open>
  A Series as its constructor leaves it: one that is not a stack, and a stack read from
  a file of five frames.
\<close>

definition new_series :: series where
  "new_series =
     \<lparr>is_stack = False, s_filepath = None, s_loaded = False, s_dicom = None,
      shape = (0, 0, 0), is_multisample = False, is_rgb = False, image_set = [],
      current_slice = 0\<rparr>"

definition new_stack :: series where
  "new_stack =
     \<lparr>is_stack = True, s_filepath = Some ''stack.dcm'', s_loaded = False, s_dicom = None,
      shape = (5, 1, 1), is_multisample = False, is_rgb = False, image_set = [],
      current_slice = 0\<rparr>"

definition store :: "series \<Rightarrow> (addr \<Rightarrow> dcm_instance) \<Rightarrow> world" where
  "store s f =
     \<lparr>ser = s, inst = f, i_loaded = (\<lambda>a. False), i_dicom = (\<lambda>a. None),
      dcmread = example_disk, convert_color_space = no_conversion\<rparr>"

definition empty_world :: world where
  "empty_world = store new_series (\<lambda>a. file_instance (int a + 1) ''ct.dcm'' 1)"

definition ct_world :: world where
  "ct_world = store (new_series\<lparr>shape := (2, 1, 1), image_set := [0, 1]\<rparr>)
                    (\<lambda>a. file_instance (int a + 1) ''ct.dcm'' 1)"

definition bare_world :: world where
  "bare_world = store (new_series\<lparr>shape := (1, 1, 1), image_set := [0]\<rparr>)
                      (\<lambda>a. file_instance (int a + 1) ''bare.dcm'' 1)"



definition study_of :: "string \<Rightarrow> study" where
  "study_of pid =
     \<lparr>patient = \<lparr>patient_id = pid, name = ''anonymous''\<rparr>, study_id = ''S1'',
      study_date = (1, 1, 2000), study_description = ''head''\<rparr>"


text \<open>
  The dataset the accessors of a standalone Instance read: the one it holds when it is
  loaded, otherwise the one its file decodes to (none when decoding fails).
\<close>

definition file_dataset :: "world \<Rightarrow> addr \<Rightarrow> dataset option" where
  "file_dataset w a =
     (if i_loaded w a then i_dicom w a
      else case dcmread w (i_filepath (inst w a)) of Inl e \<Rightarrow> None | Inr ds \<Rightarrow> Some ds)"

text \<open>
  Two stores with the same Instances in the Series, the same files and the same datasets
  to read; and a stack Series of the store \<open>w\<close> whose file \<open>p\<close> decodes to \<open>ds\<close> and
  whose cached dataset, when it is loaded, is \<open>ds\<close>. Both are kept by the lookups below.
\<close>

definition same_files :: "world \<Rightarrow> world \<Rightarrow> bool" where
  "same_files w v \<longleftrightarrow>
     image_set (ser v) = image_set (ser w) \<and> is_stack (ser v) = is_stack (ser w)
     \<and> inst v = inst w \<and> dcmread v = dcmread w
     \<and> (\<forall>b. file_dataset v b = file_dataset w b)"








definition shuffled_world :: world where
  "shuffled_world =
     store (new_series\<lparr>shape := (2, 1, 1), image_set := [0, 1]\<rparr>)
       (\<lambda>a. if a = 0 then file_instance 2 ''bare.dcm'' 1 else file_instance 1 ''ct.dcm'' 1)"



section \<open>Properties\<close>

lemmas run_defs = bnd_def ret_def raise_def lift_def except_def

lemmas example_defs =
  store_def new_series_def new_stack_def file_instance_def frame_instance_def
  example_disk_def no_conversion_def ct_file_def bare_file_def stack_file_def



subsection \<open>Equality of Patients and Studies\<close>

text \<open>
  C9. Two Patients are equal exactly when their ids match, and a Patient or a Study equals
  a string exactly when it is its identity string and an integer exactly when it is its
  hash. Two Studies, however, are compared by \<^verbatim>\<open>study_id\<close> alone: the Studies
  \<open>S1\<close> of the two patients \<open>A\<close> and \<open>B\<close> compare equal although their patients and
  their identity strings differ.
\<close>

theorem Study_eq_ignores_patient:
  "Study_eq h (study_of ''A'') (StudyObj (study_of ''B''))
   \<and> patient_id (patient (study_of ''A'')) \<noteq> patient_id (patient (study_of ''B''))
   \<and> Study_id_string (study_of ''A'') \<noteq> Study_id_string (study_of ''B'')"
  by (simp add: study_of_def Study_id_string_def Patient_id_string_def)

subsection \<open>Arrays of a Series without Instances\<close>

text \<open>
  C10. On a Series that is not a stack and has no Instances, \<^verbatim>\<open>raw_array\<close> and
  \<^verbatim>\<open>array\<close> load the (empty) Series and then fail in \<^verbatim>\<open>np.concatenate\<close>, which is
  handed an empty list: the result is a \<open>ValueError\<close>, not an empty array.
\<close>

theorem empty_series_arrays_fail:
  "\<not> is_stack (ser w) \<Longrightarrow> image_set (ser w) = [] \<Longrightarrow>
     fst (Series_raw_array (Suc (Suc d)) w) = Inl ValueError
     \<and> fst (Series_array (Suc (Suc d)) w) = Inl ValueError"
  by (simp add: run_defs instances_def np_concatenate_def)

theorem empty_series_arrays_fail_witness:
  "\<not> is_stack (ser empty_world) \<and> image_set (ser empty_world) = []
   \<and> fst (Series_raw_array (Suc (Suc 0)) empty_world) = Inl ValueError
   \<and> fst (Series_array (Suc (Suc 0)) empty_world) = Inl ValueError"
  using empty_series_arrays_fail [of empty_world 0]
  by (simp add: empty_world_def example_defs)

subsection \<open>Adding an Instance to a Series\<close>




subsection \<open>Looking up a tag of one Instance of a Series\<close>

text \<open>
  C8, as the claim states it, fails below zero: on a Series without Instances the
  position \<open>-1\<close> is smaller than the slice count, passes the check, and the list of
  Instances raises the \<open>IndexError\<close> itself.
\<close>

theorem Series_get_tag_negative_position:
  "- 1 < int (num_slices (ser empty_world))
   \<and> Series_get_tag 2 WindowWidth (- 1) empty_world = (Inl IndexError, empty_world)"
  by (simp add: Series_get_tag_def run_defs py_index_def instances_def empty_world_def
      example_defs num_slices_def dim0_def)

lemma count_list_insort: "count_list (insort_key f x xs) a = count_list (x # xs) a"
  by (induction xs) auto

lemma count_list_sort: "count_list (sort_key f xs) a = count_list xs a"
  by (induction xs) (simp_all add: count_list_insort)

text \<open>
  C8, amended. \<^verbatim>\<open>Series.get_tag\<close> raises \<open>IndexError\<close>, touching nothing, whenever
  the position is at or beyond the slice count; for a position from zero up to the slice
  count, on a Series whose slice count is its number of Instances, it is
  \<^verbatim>\<open>Instance.get_tag\<close> of the Instance at that position of the list \<^verbatim>\<open>instances\<close>.
  That list is in sort order: its sort values ascend, and it holds every Instance of the
  Series as often as the Series does.
\<close>

theorem Series_get_tag_range:
  "(int (num_slices (ser w)) \<le> n \<longrightarrow> Series_get_tag d t n w = (Inl IndexError, w))
   \<and> (0 \<le> n \<and> n < int (num_slices (ser w))
        \<and> num_slices (ser w) = length (image_set (ser w)) \<longrightarrow>
        Series_get_tag d t n w = Instance_get_tag d t (instances w ! nat n) w)
   \<and> sorted (map (\<lambda>b. sort_value (inst w b)) (instances w))
   \<and> count_list (instances w) a = count_list (image_set (ser w)) a"
  by (simp add: Series_get_tag_def run_defs py_index_def instances_def count_list_sort)

theorem Series_get_tag_range_witness:
  "int (num_slices (ser shuffled_world)) \<le> 2
   \<and> Series_get_tag 2 WindowCenter 2 shuffled_world = (Inl IndexError, shuffled_world)
   \<and> (0::int) < int (num_slices (ser shuffled_world))
   \<and> num_slices (ser shuffled_world) = length (image_set (ser shuffled_world))
   \<and> image_set (ser shuffled_world) = [0, 1]
   \<and> instances shuffled_world = [1, 0]
   \<and> map (\<lambda>b. sort_value (inst shuffled_world b)) (instances shuffled_world) = [1, 2]
   \<and> fst (Series_get_tag 2 WindowCenter 0 shuffled_world) = Inr (VNum 40)
   \<and> fst (Instance_get_tag 2 WindowCenter 1 shuffled_world) = Inr (VNum 40)
   \<and> fst (Series_get_tag 2 WindowCenter 1 shuffled_world) = Inl KeyError
   \<and> fst (Instance_get_tag 2 WindowCenter 0 shuffled_world) = Inl KeyError"
  using Series_get_tag_range [of shuffled_world 2 2 WindowCenter 0]
    Series_get_tag_range [of shuffled_world 0 2 WindowCenter 0]
    Series_get_tag_range [of shuffled_world 1 2 WindowCenter 0]
  by (simp add: shuffled_world_def example_defs num_slices_def dim0_def instances_def
      sort_value_def Instance_get_tag_def run_defs numeral_2_eq_2 get_tag_def)

subsection \<open>The loaded flag across a tag lookup\<close>

text \<open>
  C3. \<^verbatim>\<open>Instance.get_tag\<close> and \<^verbatim>\<open>Series.get_tags\<close> remember the loaded flag, load,
  look the tag up and unload again if the node was not loaded before; but the unload is
  the last statement, and a lookup that raises skips it. An unloaded Instance whose file
  has no WindowCenter is left loaded by \<^verbatim>\<open>get_tag(WindowCenter)\<close>, which raises
  \<open>KeyError\<close>; so is its unloaded Series by \<^verbatim>\<open>get_tags(WindowCenter)\<close>.
\<close>

theorem get_tag_miss_leaves_node_loaded:
  "fst (Instance_get_tag 2 WindowCenter 0 bare_world) = Inl KeyError
   \<and> \<not> i_loaded bare_world 0
   \<and> i_loaded (snd (Instance_get_tag 2 WindowCenter 0 bare_world)) 0
   \<and> fst (Series_get_tags 2 WindowCenter bare_world) = Inl KeyError
   \<and> \<not> s_loaded (ser bare_world)
   \<and> s_loaded (ser (snd (Series_get_tags 2 WindowCenter bare_world)))"
  by (simp add: bare_world_def example_defs Series_get_tags_def Instance_get_tag_def run_defs
      numeral_2_eq_2 get_tag_def instances_def)

subsection \<open>Accessors that let a lookup failure through\<close>

text \<open>
  C7. On a Series without Instances every lookup at the current slice raises
  \<open>IndexError\<close>. \<^verbatim>\<open>window\<close> and \<^verbatim>\<open>level\<close> catch it and return the default of the base
  class; \<^verbatim>\<open>vmax\<close>, \<^verbatim>\<open>vmin\<close> and \<^verbatim>\<open>pixel_size\<close> catch only other exceptions and raise it.
\<close>

theorem vmax_raises_on_empty_series:
  "Series_vmax base d empty_world = (Inl IndexError, empty_world)
   \<and> Series_vmin base d empty_world = (Inl IndexError, empty_world)
   \<and> Series_pixel_size d empty_world = (Inl IndexError, empty_world)
   \<and> Series_window pf base d empty_world = base empty_world
   \<and> Series_level pf base d empty_world = base empty_world"
  by (simp add: empty_world_def example_defs Series_vmax_def vmax_body_def Series_vmin_def
      vmin_body_def Series_pixel_size_def pixel_size_body_def Series_window_def
      Series_level_def Series_look_def Series_get_tag_def run_defs num_slices_def dim0_def)

subsection \<open>Loading and unloading\<close>















subsection \<open>Window and level\<close>

lemma py_half_err: "py_half v = Inl e \<Longrightarrow> e = TypeError"
  by (cases v) auto

lemma py_add_err: "py_add u v = Inl e \<Longrightarrow> e = TypeError"
  by (cases u; cases v) auto

lemma py_sub_err: "py_sub u v = Inl e \<Longrightarrow> e = TypeError"
  by (cases u; cases v) auto

lemma vmax_body_eval:
  assumes "look WindowWidth w = (rw, w1)" "look WindowCenter w1 = (rc, w2)"
  shows "vmax_body look base w =
     (case rw of
        Inl e \<Rightarrow> if e = TypeError \<or> e = KeyError then base w1 else (Inl e, w1)
      | Inr v \<Rightarrow>
         (case rc of
            Inl e \<Rightarrow> if e = TypeError \<or> e = KeyError then base w2 else (Inl e, w2)
          | Inr u \<Rightarrow>
             (case (u, v) of
                (VNum c, VNum x) \<Rightarrow> (Inr (VNum (c + x / 2)), w2)
              | _ \<Rightarrow> base w2)))"
  using assms
  by (auto simp: vmax_body_def run_defs split: sum.splits pyval.splits dest: py_half_err py_add_err)

lemma vmin_body_eval:
  assumes "look WindowWidth w = (rw, w1)" "look WindowCenter w1 = (rc, w2)"
  shows "vmin_body look base w =
     (case rw of
        Inl e \<Rightarrow> if e = TypeError \<or> e = KeyError then base w1 else (Inl e, w1)
      | Inr v \<Rightarrow>
         (case rc of
            Inl e \<Rightarrow> if e = TypeError \<or> e = KeyError then base w2 else (Inl e, w2)
          | Inr u \<Rightarrow>
             (case (u, v) of
                (VNum c, VNum x) \<Rightarrow> (Inr (VNum (c - x / 2)), w2)
              | _ \<Rightarrow> base w2)))"
  using assms
  by (auto simp: vmin_body_def run_defs split: sum.splits pyval.splits dest: py_half_err py_sub_err)

text \<open>
  C6, as the claim states it, fails where only one of the two tags is missing:
  \<^verbatim>\<open>window\<close> reads WindowWidth alone, so on a file with a window width of 400 and no
  window centre it returns 400, not the default of the base class (7 here).
\<close>

theorem window_ignores_missing_center:
  "fst (Series_look 2 WindowCenter bare_world) = Inl KeyError
   \<and> fst (Series_window (\<lambda>cs. None) (ret (VNum 7)) 2 bare_world) = Inr (VNum 400)
   \<and> fst (Instance_window (ret (VNum 7)) 2 0 bare_world) = Inr (VNum 400)"
  by (simp add: bare_world_def example_defs Series_window_def Instance_window_def
      Series_look_def Series_get_tag_def run_defs num_slices_def dim0_def
      Instance_get_tag_def numeral_2_eq_2 get_tag_def instances_def py_index_def)

text \<open>
  C6, amended. Name the results of the lookups of WindowWidth and then WindowCenter at
  the current slice \<open>rw\<close> and \<open>rc\<close> (for \<^verbatim>\<open>level\<close>, which looks up WindowCenter
  first, \<open>rl\<close>), and likewise \<open>iw\<close>, \<open>ic\<close>, \<open>il\<close> for an Instance. When both are
  numbers \<open>x\<close> and \<open>c\<close>: vmax is \<open>c + x / 2\<close>, vmin is \<open>c - x / 2\<close>, window is \<open>x\<close>
  and level is \<open>c\<close>. vmax and vmin are the default of the base class when either tag is
  missing (\<open>KeyError\<close>) or either value is \<open>None\<close> or not a number. The window of a
  Series is the default when WindowWidth is missing, out of range, a sequence or
  \<open>None\<close>, whatever WindowCenter is; its level is the default when WindowCenter is
  missing, out of range or \<open>None\<close>, whatever WindowWidth is (for \<open>None\<close> the default is
  asked for inside the \<^verbatim>\<open>try\<close>). The window and level of an Instance are the value of
  their tag when it is a number, and the default when the tag is missing.
\<close>

theorem window_level_defaults:
  assumes "Series_look d WindowWidth w = (rw, w1)"
    and "Series_look d WindowCenter w1 = (rc, w2)"
    and "Series_look d WindowCenter w = (rl, w3)"
    and "Instance_get_tag d WindowWidth a w = (iw, v1)"
    and "Instance_get_tag d WindowCenter a v1 = (ic, v2)"
    and "Instance_get_tag d WindowCenter a w = (il, v3)"
  shows
   "((rw = Inr (VNum x) \<and> rc = Inr (VNum c) \<longrightarrow>
        Series_vmax bmax d w = (Inr (VNum (c + x / 2)), w2)
        \<and> Series_vmin bmin d w = (Inr (VNum (c - x / 2)), w2))
     \<and> (rw = Inr (VNum x) \<longrightarrow> Series_window pf bwin d w = (Inr (VNum x), w1))
     \<and> (rl = Inr (VNum c) \<longrightarrow> Series_level pf blev d w = (Inr (VNum c), w3))
     \<and> (rw = Inl KeyError \<longrightarrow>
          Series_vmax bmax d w = bmax w1 \<and> Series_vmin bmin d w = bmin w1)
     \<and> ((\<exists>v. rw = Inr v) \<and> rc = Inl KeyError \<longrightarrow>
          Series_vmax bmax d w = bmax w2 \<and> Series_vmin bmin d w = bmin w2)
     \<and> ((\<exists>v u. rw = Inr v \<and> rc = Inr u \<and> \<not> (\<exists>y z. v = VNum y \<and> u = VNum z)) \<longrightarrow>
          Series_vmax bmax d w = bmax w2 \<and> Series_vmin bmin d w = bmin w2)
     \<and> (rw = Inl KeyError \<or> rw = Inl IndexError \<or> (\<exists>vs. rw = Inr (VSeq vs)) \<longrightarrow>
          Series_window pf bwin d w = bwin w1)
     \<and> (rw = Inr VNone \<longrightarrow>
          Series_window pf bwin d w = except bwin [KeyError, IndexError, TypeError] bwin w1)
     \<and> (rl = Inl KeyError \<or> rl = Inl IndexError \<longrightarrow> Series_level pf blev d w = blev w3)
     \<and> (rl = Inr VNone \<longrightarrow>
          Series_level pf blev d w = except blev [KeyError, IndexError] blev w3))
    \<and> ((iw = Inr (VNum x) \<and> ic = Inr (VNum c) \<longrightarrow>
          Instance_vmax bmax d a w = (Inr (VNum (c + x / 2)), v2)
          \<and> Instance_vmin bmin d a w = (Inr (VNum (c - x / 2)), v2))
     \<and> (iw = Inr (VNum x) \<longrightarrow> Instance_window bwin d a w = (Inr (VNum x), v1))
     \<and> (il = Inr (VNum c) \<longrightarrow> Instance_level blev d a w = (Inr (VNum c), v3))
     \<and> (iw = Inl KeyError \<longrightarrow>
          Instance_vmax bmax d a w = bmax v1 \<and> Instance_vmin bmin d a w = bmin v1
          \<and> Instance_window bwin d a w = bwin v1)
     \<and> ((\<exists>v. iw = Inr v) \<and> ic = Inl KeyError \<longrightarrow>
          Instance_vmax bmax d a w = bmax v2 \<and> Instance_vmin bmin d a w = bmin v2)
     \<and> ((\<exists>v u. iw = Inr v \<and> ic = Inr u \<and> \<not> (\<exists>y z. v = VNum y \<and> u = VNum z)) \<longrightarrow>
          Instance_vmax bmax d a w = bmax v2 \<and> Instance_vmin bmin d a w = bmin v2)
     \<and> (il = Inl KeyError \<longrightarrow> Instance_level blev d a w = blev v3))"
proof -
  have smax: "Series_vmax bmax d w = (case rw of
        Inl e \<Rightarrow> if e = TypeError \<or> e = KeyError then bmax w1 else (Inl e, w1)
      | Inr v \<Rightarrow>
         (case rc of
            Inl e \<Rightarrow> if e = TypeError \<or> e = KeyError then bmax w2 else (Inl e, w2)
          | Inr u \<Rightarrow>
             (case (u, v) of
                (VNum c, VNum x) \<Rightarrow> (Inr (VNum (c + x / 2)), w2)
              | _ \<Rightarrow> bmax w2)))"
    unfolding Series_vmax_def using assms(1,2) by (rule vmax_body_eval)
  have smin: "Series_vmin bmin d w = (case rw of
        Inl e \<Rightarrow> if e = TypeError \<or> e = KeyError then bmin w1 else (Inl e, w1)
      | Inr v \<Rightarrow>
         (case rc of
            Inl e \<Rightarrow> if e = TypeError \<or> e = KeyError then bmin w2 else (Inl e, w2)
          | Inr u \<Rightarrow>
             (case (u, v) of
                (VNum c, VNum x) \<Rightarrow> (Inr (VNum (c - x / 2)), w2)
              | _ \<Rightarrow> bmin w2)))"
    unfolding Series_vmin_def using assms(1,2) by (rule vmin_body_eval)
  have imax: "Instance_vmax bmax d a w = (case iw of
        Inl e \<Rightarrow> if e = TypeError \<or> e = KeyError then bmax v1 else (Inl e, v1)
      | Inr v \<Rightarrow>
         (case ic of
            Inl e \<Rightarrow> if e = TypeError \<or> e = KeyError then bmax v2 else (Inl e, v2)
          | Inr u \<Rightarrow>
             (case (u, v) of
                (VNum c, VNum x) \<Rightarrow> (Inr (VNum (c + x / 2)), v2)
              | _ \<Rightarrow> bmax v2)))"
    unfolding Instance_vmax_def using assms(4,5) by (rule vmax_body_eval)
  have imin: "Instance_vmin bmin d a w = (case iw of
        Inl e \<Rightarrow> if e = TypeError \<or> e = KeyError then bmin v1 else (Inl e, v1)
      | Inr v \<Rightarrow>
         (case ic of
            Inl e \<Rightarrow> if e = TypeError \<or> e = KeyError then bmin v2 else (Inl e, v2)
          | Inr u \<Rightarrow>
             (case (u, v) of
                (VNum c, VNum x) \<Rightarrow> (Inr (VNum (c - x / 2)), v2)
              | _ \<Rightarrow> bmin v2)))"
    unfolding Instance_vmin_def using assms(4,5) by (rule vmin_body_eval)
  have swin: "Series_window pf bwin d w = (case rw of
        Inl e \<Rightarrow> if e \<in> {KeyError, IndexError, TypeError} then bwin w1 else (Inl e, w1)
      | Inr v \<Rightarrow> if v = VNone then except bwin [KeyError, IndexError, TypeError] bwin w1
                 else except (lift (py_float pf v)) [KeyError, IndexError, TypeError] bwin w1)"
    using assms(1) by (auto simp: Series_window_def run_defs split: sum.splits prod.splits)
  have slev: "Series_level pf blev d w = (case rl of
        Inl e \<Rightarrow> if e \<in> {KeyError, IndexError} then blev w3 else (Inl e, w3)
      | Inr v \<Rightarrow> if v = VNone then except blev [KeyError, IndexError] blev w3
                 else except (lift (py_float pf v)) [KeyError, IndexError] blev w3)"
    using assms(3) by (auto simp: Series_level_def run_defs split: sum.splits prod.splits)
  have iwin: "Instance_window bwin d a w = (case iw of
        Inl e \<Rightarrow> if e \<in> {KeyError, IndexError} then bwin v1 else (Inl e, v1)
      | Inr v \<Rightarrow> (Inr v, v1))"
    using assms(4) by (auto simp: Instance_window_def run_defs split: sum.splits prod.splits)
  have ilev: "Instance_level blev d a w = (case il of
        Inl e \<Rightarrow> if e \<in> {KeyError, IndexError} then blev v3 else (Inl e, v3)
      | Inr v \<Rightarrow> (Inr v, v3))"
    using assms(6) by (auto simp: Instance_level_def run_defs split: sum.splits prod.splits)
  have s1: "rw = Inr (VNum x) \<and> rc = Inr (VNum c) \<longrightarrow>
        Series_vmax bmax d w = (Inr (VNum (c + x / 2)), w2)
        \<and> Series_vmin bmin d w = (Inr (VNum (c - x / 2)), w2)"
    by (simp add: smax smin)
  have s2: "rw = Inr (VNum x) \<longrightarrow> Series_window pf bwin d w = (Inr (VNum x), w1)"
    by (simp add: swin run_defs)
  have s3: "rl = Inr (VNum c) \<longrightarrow> Series_level pf blev d w = (Inr (VNum c), w3)"
    by (simp add: slev run_defs)
  have s4: "rw = Inl KeyError \<longrightarrow>
          Series_vmax bmax d w = bmax w1 \<and> Series_vmin bmin d w = bmin w1"
    by (simp add: smax smin)
  have s5: "(\<exists>v. rw = Inr v) \<and> rc = Inl KeyError \<longrightarrow>
          Series_vmax bmax d w = bmax w2 \<and> Series_vmin bmin d w = bmin w2"
    by (auto simp: smax smin)
  have s6: "(\<exists>v u. rw = Inr v \<and> rc = Inr u \<and> \<not> (\<exists>y z. v = VNum y \<and> u = VNum z)) \<longrightarrow>
          Series_vmax bmax d w = bmax w2 \<and> Series_vmin bmin d w = bmin w2"
    by (auto simp: smax smin split: pyval.splits)
  have s7: "rw = Inl KeyError \<or> rw = Inl IndexError \<or> (\<exists>vs. rw = Inr (VSeq vs)) \<longrightarrow>
          Series_window pf bwin d w = bwin w1"
    by (auto simp: swin run_defs)
  have s8: "rw = Inr VNone \<longrightarrow>
          Series_window pf bwin d w = except bwin [KeyError, IndexError, TypeError] bwin w1"
    by (simp add: swin)
  have s9: "rl = Inl KeyError \<or> rl = Inl IndexError \<longrightarrow> Series_level pf blev d w = blev w3"
    by (auto simp: slev)
  have s10: "rl = Inr VNone \<longrightarrow>
          Series_level pf blev d w = except blev [KeyError, IndexError] blev w3"
    by (simp add: slev)
  have i1: "iw = Inr (VNum x) \<and> ic = Inr (VNum c) \<longrightarrow>
          Instance_vmax bmax d a w = (Inr (VNum (c + x / 2)), v2)
          \<and> Instance_vmin bmin d a w = (Inr (VNum (c - x / 2)), v2)"
    by (simp add: imax imin)
  have i2: "iw = Inr (VNum x) \<longrightarrow> Instance_window bwin d a w = (Inr (VNum x), v1)"
    by (simp add: iwin)
  have i3: "il = Inr (VNum c) \<longrightarrow> Instance_level blev d a w = (Inr (VNum c), v3)"
    by (simp add: ilev)
  have i4: "iw = Inl KeyError \<longrightarrow>
          Instance_vmax bmax d a w = bmax v1 \<and> Instance_vmin bmin d a w = bmin v1
          \<and> Instance_window bwin d a w = bwin v1"
    by (simp add: imax imin iwin)
  have i5: "(\<exists>v. iw = Inr v) \<and> ic = Inl KeyError \<longrightarrow>
          Instance_vmax bmax d a w = bmax v2 \<and> Instance_vmin bmin d a w = bmin v2"
    by (auto simp: imax imin)
  have i6: "(\<exists>v u. iw = Inr v \<and> ic = Inr u \<and> \<not> (\<exists>y z. v = VNum y \<and> u = VNum z)) \<longrightarrow>
          Instance_vmax bmax d a w = bmax v2 \<and> Instance_vmin bmin d a w = bmin v2"
    by (auto simp: imax imin split: pyval.splits)
  have i7: "il = Inl KeyError \<longrightarrow> Instance_level blev d a w = blev v3"
    by (simp add: ilev)
  show ?thesis
    using s1 s2 s3 s4 s5 s6 s7 s8 s9 s10 i1 i2 i3 i4 i5 i6 i7 by blast
qed

theorem window_level_defaults_witness:
  "Series_look 2 WindowWidth ct_world = (Inr (VNum 400), ct_world)
   \<and> Series_look 2 WindowCenter ct_world = (Inr (VNum 40), ct_world)
   \<and> Instance_get_tag 2 WindowWidth 0 ct_world = (Inr (VNum 400), ct_world)
   \<and> Instance_get_tag 2 WindowCenter 0 ct_world = (Inr (VNum 40), ct_world)
   \<and> Series_vmax (ret (VNum 7)) 2 ct_world = (Inr (VNum 240), ct_world)
   \<and> Series_vmin (ret (VNum 7)) 2 ct_world = (Inr (VNum (- 160)), ct_world)
   \<and> Series_window (\<lambda>cs. None) (ret (VNum 7)) 2 ct_world = (Inr (VNum 400), ct_world)
   \<and> Series_level (\<lambda>cs. None) (ret (VNum 7)) 2 ct_world = (Inr (VNum 40), ct_world)
   \<and> Instance_vmax (ret (VNum 7)) 2 0 ct_world = (Inr (VNum 240), ct_world)
   \<and> Instance_vmin (ret (VNum 7)) 2 0 ct_world = (Inr (VNum (- 160)), ct_world)
   \<and> Instance_window (ret (VNum 7)) 2 0 ct_world = (Inr (VNum 400), ct_world)
   \<and> Instance_level (ret (VNum 7)) 2 0 ct_world = (Inr (VNum 40), ct_world)
   \<and> fst (Series_look 2 WindowCenter bare_world) = Inl KeyError
   \<and> fst (Series_vmax (ret (VNum 7)) 2 bare_world) = Inr (VNum 7)
   \<and> fst (Series_level (\<lambda>cs. None) (ret (VNum 7)) 2 bare_world) = Inr (VNum 7)
   \<and> fst (Instance_get_tag 2 WindowCenter 0 bare_world) = Inl KeyError
   \<and> fst (Instance_vmin (ret (VNum 7)) 2 0 bare_world) = Inr (VNum 7)
   \<and> fst (Instance_level (ret (VNum 7)) 2 0 bare_world) = Inr (VNum 7)"
proof -
  have sw: "Series_look 2 WindowWidth ct_world = (Inr (VNum 400), ct_world)"
    by (simp add: ct_world_def example_defs Series_look_def Series_get_tag_def num_slices_def
        dim0_def instances_def sort_value_def py_index_def Instance_get_tag_def run_defs
        numeral_2_eq_2 get_tag_def fun_eq_iff)
  have sc: "Series_look 2 WindowCenter ct_world = (Inr (VNum 40), ct_world)"
    by (simp add: ct_world_def example_defs Series_look_def Series_get_tag_def num_slices_def
        dim0_def instances_def sort_value_def py_index_def Instance_get_tag_def run_defs
        numeral_2_eq_2 get_tag_def fun_eq_iff)
  have iw: "Instance_get_tag 2 WindowWidth 0 ct_world = (Inr (VNum 400), ct_world)"
    by (simp add: ct_world_def example_defs Instance_get_tag_def run_defs
        numeral_2_eq_2 get_tag_def fun_eq_iff)
  have ic: "Instance_get_tag 2 WindowCenter 0 ct_world = (Inr (VNum 40), ct_world)"
    by (simp add: ct_world_def example_defs Instance_get_tag_def run_defs
        numeral_2_eq_2 get_tag_def fun_eq_iff)
  have bw: "Series_look 2 WindowWidth bare_world = (Inr (VNum 400), bare_world)"
    by (simp add: bare_world_def example_defs Series_look_def Series_get_tag_def num_slices_def
        dim0_def instances_def sort_value_def py_index_def Instance_get_tag_def run_defs
        numeral_2_eq_2 get_tag_def fun_eq_iff)
  have bc: "fst (Series_look 2 WindowCenter bare_world) = Inl KeyError"
    by (simp add: bare_world_def example_defs Series_look_def Series_get_tag_def num_slices_def
        dim0_def instances_def sort_value_def py_index_def Instance_get_tag_def run_defs
        numeral_2_eq_2 get_tag_def)
  have biw: "Instance_get_tag 2 WindowWidth 0 bare_world = (Inr (VNum 400), bare_world)"
    by (simp add: bare_world_def example_defs Instance_get_tag_def run_defs
        numeral_2_eq_2 get_tag_def fun_eq_iff)
  have bic: "fst (Instance_get_tag 2 WindowCenter 0 bare_world) = Inl KeyError"
    by (simp add: bare_world_def example_defs Instance_get_tag_def run_defs
        numeral_2_eq_2 get_tag_def)
  have good: ?thesis
    if "(Series_vmax (ret (VNum 7)) 2 ct_world = (Inr (VNum (40 + 400 / 2)), ct_world)
         \<and> Series_vmin (ret (VNum 7)) 2 ct_world = (Inr (VNum (40 - 400 / 2)), ct_world))
        \<and> Series_window (\<lambda>cs. None) (ret (VNum 7)) 2 ct_world = (Inr (VNum 400), ct_world)
        \<and> Series_level (\<lambda>cs. None) (ret (VNum 7)) 2 ct_world = (Inr (VNum 40), ct_world)
        \<and> (Instance_vmax (ret (VNum 7)) 2 0 ct_world = (Inr (VNum (40 + 400 / 2)), ct_world)
         \<and> Instance_vmin (ret (VNum 7)) 2 0 ct_world = (Inr (VNum (40 - 400 / 2)), ct_world))
        \<and> Instance_window (ret (VNum 7)) 2 0 ct_world = (Inr (VNum 400), ct_world)
        \<and> Instance_level (ret (VNum 7)) 2 0 ct_world = (Inr (VNum 40), ct_world)"
      and "Series_vmax (ret (VNum 7)) 2 bare_world
             = ret (VNum 7) (snd (Series_look 2 WindowCenter bare_world))
           \<and> Series_level (\<lambda>cs. None) (ret (VNum 7)) 2 bare_world
             = ret (VNum 7) (snd (Series_look 2 WindowCenter bare_world))
           \<and> Instance_vmin (ret (VNum 7)) 2 0 bare_world
             = ret (VNum 7) (snd (Instance_get_tag 2 WindowCenter 0 bare_world))
           \<and> Instance_level (ret (VNum 7)) 2 0 bare_world
             = ret (VNum 7) (snd (Instance_get_tag 2 WindowCenter 0 bare_world))"
    using that sw sc iw ic bc bic by (simp add: ret_def)
  show ?thesis
  proof (rule good)
    show "(Series_vmax (ret (VNum 7)) 2 ct_world = (Inr (VNum (40 + 400 / 2)), ct_world)
         \<and> Series_vmin (ret (VNum 7)) 2 ct_world = (Inr (VNum (40 - 400 / 2)), ct_world))
        \<and> Series_window (\<lambda>cs. None) (ret (VNum 7)) 2 ct_world = (Inr (VNum 400), ct_world)
        \<and> Series_level (\<lambda>cs. None) (ret (VNum 7)) 2 ct_world = (Inr (VNum 40), ct_world)
        \<and> (Instance_vmax (ret (VNum 7)) 2 0 ct_world = (Inr (VNum (40 + 400 / 2)), ct_world)
         \<and> Instance_vmin (ret (VNum 7)) 2 0 ct_world = (Inr (VNum (40 - 400 / 2)), ct_world))
        \<and> Instance_window (ret (VNum 7)) 2 0 ct_world = (Inr (VNum 400), ct_world)
        \<and> Instance_level (ret (VNum 7)) 2 0 ct_world = (Inr (VNum 40), ct_world)"
      using window_level_defaults [OF sw sc sc iw ic ic,
          where x = 400 and c = 40 and bmax = "ret (VNum 7)" and bmin = "ret (VNum 7)"
            and bwin = "ret (VNum 7)" and blev = "ret (VNum 7)" and pf = "\<lambda>cs. None"]
      by simp
  next
    have c1: "Series_look 2 WindowCenter bare_world
        = (Inl KeyError, snd (Series_look 2 WindowCenter bare_world))"
      using bc by (simp add: prod_eq_iff)
    have c2: "Instance_get_tag 2 WindowCenter 0 bare_world
        = (Inl KeyError, snd (Instance_get_tag 2 WindowCenter 0 bare_world))"
      using bic by (simp add: prod_eq_iff)
    show "Series_vmax (ret (VNum 7)) 2 bare_world
             = ret (VNum 7) (snd (Series_look 2 WindowCenter bare_world))
           \<and> Series_level (\<lambda>cs. None) (ret (VNum 7)) 2 bare_world
             = ret (VNum 7) (snd (Series_look 2 WindowCenter bare_world))
           \<and> Instance_vmin (ret (VNum 7)) 2 0 bare_world
             = ret (VNum 7) (snd (Instance_get_tag 2 WindowCenter 0 bare_world))
           \<and> Instance_level (ret (VNum 7)) 2 0 bare_world
             = ret (VNum 7) (snd (Instance_get_tag 2 WindowCenter 0 bare_world))"
      using window_level_defaults [OF bw c1 c1 biw c2 c2,
          where bmax = "ret (VNum 7)" and bmin = "ret (VNum 7)"
            and bwin = "ret (VNum 7)" and blev = "ret (VNum 7)" and pf = "\<lambda>cs. None"]
      by simp
  qed
qed

subsection \<open>The raw array of an Instance\<close>






subsection \<open>The corrected array\<close>


lemma loaded_dicom_dataset:
  assumes "\<not> is_frame (inst w a)" "i_loaded w a"
  shows "Instance_dicom_dataset (Suc d) a w = (Inr (i_dicom w a), w)"
  using assms by (simp add: run_defs)











lemma same_files_instances: "same_files w v \<Longrightarrow> instances v = instances w"
  by (simp add: same_files_def instances_def)








lemma bnd_Inr: "m w = (Inr x, w') \<Longrightarrow> bnd m f w = f x w'"
  by (simp add: bnd_def)

lemma bnd_Inl: "m w = (Inl e, w') \<Longrightarrow> bnd m f w = (Inl e, w')"
  by (simp add: bnd_def)























end
